theory Spec2Isabelle
  imports Complex_Main "HOL-Library.Monad_Syntax"
begin

section \<open>Values that reach the teacher portal at run time\<close>

text \<open>
  The portal is TypeScript, so the values a form hands to its schema are untyped at run
  time. A JavaScript number is either NaN or an ordinary number; the two infinities are
  not represented. A form value is one of the primitive values an input element or a
  default value can produce.
\<close>

datatype jsnum = NaN | Num real

datatype jsval = Undefined | Null | JBool bool | JNum jsnum | JStr string

text \<open>
  What the portal takes from the browser and from the zod library rather than defining
  itself: \<open>Date_parse\<close> is \<open>new Date(s).getTime()\<close> in milliseconds (\<open>None\<close> for an
  Invalid Date), \<open>Date_now\<close> is the value of \<open>new Date()\<close> when the form is validated,
  \<open>toISOString\<close> is \<open>Date.prototype.toISOString\<close> on a valid date,
  \<open>Number_of_string\<close> is \<open>Number(s)\<close> on a string and \<open>email_pattern\<close> is the
  pattern behind zod's \<open>.email()\<close>.
\<close>

record platform =
  Date_parse :: "string \<Rightarrow> int option"
  Date_now :: int
  toISOString :: "int \<Rightarrow> string"
  Number_of_string :: "string \<Rightarrow> jsnum"
  email_pattern :: "string \<Rightarrow> bool"

text \<open>JavaScript's \<open>Number(v)\<close>, which \<open>z.coerce.number()\<close> applies to its input.\<close>

fun Number :: "platform \<Rightarrow> jsval \<Rightarrow> jsnum" where
  "Number P Undefined = NaN"
| "Number P Null = Num 0"
| "Number P (JBool b) = Num (if b then 1 else 0)"
| "Number P (JNum n) = n"
| "Number P (JStr s) = Number_of_string P s"

section \<open>The zod combinators the schemas use\<close>

text \<open>
  A schema maps a raw value to the parsed value, or to \<open>None\<close> when \<open>safeParse\<close>
  fails. The list of issues zod reports on failure is not modelled.
\<close>

definition z_string :: "jsval \<Rightarrow> string option" where
  "z_string v = (case v of JStr s \<Rightarrow> Some s | _ \<Rightarrow> None)"

definition z_number :: "jsval \<Rightarrow> real option" where
  "z_number v = (case v of JNum (Num r) \<Rightarrow> Some r | _ \<Rightarrow> None)"

definition z_coerce_number :: "platform \<Rightarrow> jsval \<Rightarrow> real option" where
  "z_coerce_number P v = z_number (JNum (Number P v))"

definition z_refine :: "('a \<Rightarrow> bool) \<Rightarrow> 'a \<Rightarrow> 'a option" where
  "z_refine check v = (if check v then Some v else None)"

definition z_min_length :: "nat \<Rightarrow> 'a list \<Rightarrow> 'a list option" where
  "z_min_length n xs = z_refine (\<lambda>ys. n \<le> length ys) xs"

definition z_length :: "nat \<Rightarrow> 'a list \<Rightarrow> 'a list option" where
  "z_length n xs = z_refine (\<lambda>ys. length ys = n) xs"

definition z_min :: "real \<Rightarrow> real \<Rightarrow> real option" where
  "z_min lo r = z_refine (\<lambda>x. lo \<le> x) r"

definition z_max :: "real \<Rightarrow> real \<Rightarrow> real option" where
  "z_max hi r = z_refine (\<lambda>x. x \<le> hi) r"

definition z_email :: "platform \<Rightarrow> string \<Rightarrow> string option" where
  "z_email P s = z_refine (email_pattern P) s"

definition z_array :: "('a \<Rightarrow> 'b option) \<Rightarrow> 'a list \<Rightarrow> 'b list option" where
  "z_array item xs = those (map item xs)"

section \<open>Data exchanged with the backend\<close>

datatype js_error = AxiosError string | RangeError string

record LoginFormInput =
  raw_email :: jsval
  raw_password :: jsval

record LoginFormData =
  email :: string
  password :: string

record User =
  role :: string
  user_name :: string

record LoginResponse =
  access_token :: string
  user :: User

record Batch =
  batch_id :: string
  batch_name :: string
  code :: string
  students :: "string list"

record File =
  file_name :: string
  file_size :: nat

record UploadResponse =
  url :: string

record QuestionInput =
  raw_text :: jsval
  raw_options :: "jsval list"
  raw_correctIndex :: jsval
  raw_marks :: jsval

record Question =
  question_text :: string
  options :: "string list"
  correctIndex :: real
  marks :: real

record ExamFormInput =
  raw_title :: jsval
  raw_batchId :: jsval
  raw_startTime :: jsval
  raw_duration :: jsval
  raw_pdfFile :: "File list option"
  raw_questions :: "QuestionInput list"

record ExamFormValues =
  title :: string
  batchId :: string
  startTime :: string
  duration :: real
  pdfFile :: "File list option"
  questions :: "Question list"

record ExamBody =
  body_title :: string
  body_batchId :: string
  durationMinutes :: real
  body_startTime :: string
  resourcePdfUrl :: string
  body_questions :: "Question list"

section \<open>Effects of the event handlers\<close>

text \<open>
  A handler's observable behaviour is the list of effects it performs, in order: the
  requests it hands to the API client, the dialogs it opens, what it writes to the
  console and where it navigates. The backend's answer to each request is an argument
  of the handler: \<open>Inl e\<close> when the request's promise rejects with \<open>e\<close>, \<open>Inr r\<close>
  when it resolves with response data \<open>r\<close>.
\<close>

datatype payload =
  LoginPayload LoginFormData
| BatchPayload string
| FormDataFile File
| ExamPayload ExamBody

datatype logged = LogText string | LogError js_error

datatype effect =
  HttpGet string
| HttpPost string payload
| Alert string
| Prompt string
| ConsoleError logged
| NavigateTo string

text \<open>
  \<open>handleSubmit(onSubmit)\<close> of the form library: the resolver runs first, and
  \<open>onSubmit\<close> is called with the parsed data only when the resolver reports no error.
\<close>

definition handleSubmit ::
  "('i \<Rightarrow> 'd option) \<Rightarrow> ('d \<Rightarrow> 's \<Rightarrow> effect list \<times> 's) \<Rightarrow> 'i \<Rightarrow> 's \<Rightarrow> effect list \<times> 's" where
  "handleSubmit resolver onSubmit input s =
     (case resolver input of None \<Rightarrow> ([], s) | Some data \<Rightarrow> onSubmit data s)"

definition posts_to :: "string \<Rightarrow> effect list \<Rightarrow> payload list" where
  "posts_to path effs =
     concat (map (\<lambda>e. case e of HttpPost p b \<Rightarrow> (if p = path then [b] else []) | _ \<Rightarrow> []) effs)"

definition requests :: "effect list \<Rightarrow> effect list" where
  "requests effs =
     filter (\<lambda>e. case e of HttpGet _ \<Rightarrow> True | HttpPost _ _ \<Rightarrow> True | _ \<Rightarrow> False) effs"

definition alerts :: "effect list \<Rightarrow> string list" where
  "alerts effs = concat (map (\<lambda>e. case e of Alert m \<Rightarrow> [m] | _ \<Rightarrow> []) effs)"

definition navigations :: "effect list \<Rightarrow> string list" where
  "navigations effs = concat (map (\<lambda>e. case e of NavigateTo p \<Rightarrow> [p] | _ \<Rightarrow> []) effs)"

section \<open>Auth state store\<close>

text \<open>
  Modelled from the spec: the module \<open>store/authStore\<close> is not among the sources. The
  spec describes it as a "process-wide, persisted key-value holding the current bearer
  token and user identity, with login/logout mutators". The state the components select
  from has a \<open>token\<close> and a \<open>user\<close> field, each null until a login.
\<close>

record AuthState =
  token :: "string option"
  current_user :: "User option"

text \<open>
  Modelled from the spec: the store's login mutator, called as \<open>login(token, user)\<close>;
  it makes the given token and user identity the current ones.
\<close>

definition login :: "string \<Rightarrow> User \<Rightarrow> AuthState \<Rightarrow> AuthState" where
  "login t u s = s\<lparr>token := Some t, current_user := Some u\<rparr>"

section \<open>Login page\<close>

definition loginSchema :: "platform \<Rightarrow> LoginFormInput \<Rightarrow> LoginFormData option" where
  "loginSchema P x = do {
     e \<leftarrow> z_string (raw_email x) \<bind> z_email P;
     p \<leftarrow> z_string (raw_password x) \<bind> z_min_length 6;
     Some \<lparr>email = e, password = p\<rparr>
   }"

text \<open>
  \<open>onSubmit\<close> of the login page. \<open>res\<close> is the backend's answer to
  \<open>POST /auth/login\<close>; a rejected request lands in the \<open>catch\<close> block.
\<close>

definition Login_onSubmit ::
  "(js_error + LoginResponse) \<Rightarrow> LoginFormData \<Rightarrow> AuthState \<Rightarrow> effect list \<times> AuthState" where
  "Login_onSubmit res data s =
     (case res of
        Inl e \<Rightarrow> ([HttpPost ''/auth/login'' (LoginPayload data), Alert ''Invalid Credentials''], s)
      | Inr r \<Rightarrow>
          if role (user r) \<noteq> ''TEACHER''
          then ([HttpPost ''/auth/login'' (LoginPayload data),
                 Alert ''Access Denied: Student accounts cannot access the dashboard.''], s)
          else ([HttpPost ''/auth/login'' (LoginPayload data), NavigateTo ''/dashboard''],
                login (access_token r) (user r) s))"

section \<open>Dashboard\<close>

text \<open>
  The component state is the batch list. \<open>fetchBatches\<close> replaces it on success and
  only writes to the console on failure.
\<close>

definition fetchBatches :: "(js_error + Batch list) \<Rightarrow> Batch list \<Rightarrow> effect list \<times> Batch list" where
  "fetchBatches res batches =
     (case res of
        Inr bs \<Rightarrow> ([HttpGet ''/batches''], bs)
      | Inl e \<Rightarrow> ([HttpGet ''/batches'', ConsoleError (LogText ''Failed to fetch batches'')], batches))"

text \<open>
  \<open>createBatch\<close>: \<open>answer\<close> is what the blocking prompt returns (\<open>None\<close> when it is
  cancelled). There is no \<open>try\<close> around the request, so a rejected \<open>POST /batches\<close>
  leaves the handler at the \<open>await\<close>; the third component of the result is the error
  the handler's promise then rejects with.
\<close>

definition createBatch ::
  "string option \<Rightarrow> (js_error + Batch) \<Rightarrow> (js_error + Batch list) \<Rightarrow> Batch list
     \<Rightarrow> effect list \<times> Batch list \<times> js_error option" where
  "createBatch answer postRes getRes batches =
     (case answer of
        None \<Rightarrow> ([Prompt ''Enter Batch Name (e.g., 2026 Revision):''], batches, None)
      | Some name \<Rightarrow>
          if name = [] then ([Prompt ''Enter Batch Name (e.g., 2026 Revision):''], batches, None)
          else (case postRes of
                  Inl e \<Rightarrow>
                    ([Prompt ''Enter Batch Name (e.g., 2026 Revision):'',
                      HttpPost ''/batches'' (BatchPayload name)], batches, Some e)
                | Inr b \<Rightarrow>
                    (let (effs, batches') = fetchBatches getRes batches
                     in ([Prompt ''Enter Batch Name (e.g., 2026 Revision):'',
                          HttpPost ''/batches'' (BatchPayload name)] @ effs, batches', None))))"

section \<open>Exam creation page\<close>

text \<open>
  The refinement on the attachment, \<open>!files || files.length === 0 ||
  files[0].size <= 5000000\<close>. The field holds the file input's list of selected files;
  \<open>None\<close> is an absent (undefined) field. Only the first file is looked at.
\<close>

definition pdfFile_check :: "File list option \<Rightarrow> bool" where
  "pdfFile_check files =
     (case files of
        None \<Rightarrow> True
      | Some fs \<Rightarrow> (case fs of [] \<Rightarrow> True | f # _ \<Rightarrow> file_size f \<le> 5000000))"

definition z_optional :: "('a option \<Rightarrow> 'a option option) \<Rightarrow> 'a option \<Rightarrow> 'a option option" where
  "z_optional inner v = (case v of None \<Rightarrow> Some None | Some _ \<Rightarrow> inner v)"

definition pdfFileSchema :: "File list option \<Rightarrow> File list option option" where
  "pdfFileSchema files = z_optional (z_refine pdfFile_check) files"

text \<open>The refinement on the start time, \<open>new Date(val) > new Date()\<close>.\<close>

definition startTime_check :: "platform \<Rightarrow> string \<Rightarrow> bool" where
  "startTime_check P val =
     (case Date_parse P val of None \<Rightarrow> False | Some t \<Rightarrow> Date_now P < t)"

definition questionSchema :: "platform \<Rightarrow> QuestionInput \<Rightarrow> Question option" where
  "questionSchema P q = do {
     t \<leftarrow> z_string (raw_text q) \<bind> z_min_length 1;
     os \<leftarrow> z_array (\<lambda>v. z_string v \<bind> z_min_length 1) (raw_options q) \<bind> z_length 4;
     c \<leftarrow> z_coerce_number P (raw_correctIndex q) \<bind> z_min 0 \<bind> z_max 3;
     m \<leftarrow> z_coerce_number P (raw_marks q) \<bind> z_min 1;
     Some \<lparr>question_text = t, options = os, correctIndex = c, marks = m\<rparr>
   }"

definition examSchema :: "platform \<Rightarrow> ExamFormInput \<Rightarrow> ExamFormValues option" where
  "examSchema P x = do {
     t \<leftarrow> z_string (raw_title x) \<bind> z_min_length 3;
     b \<leftarrow> z_string (raw_batchId x) \<bind> z_min_length 1;
     s \<leftarrow> z_string (raw_startTime x) \<bind> z_refine (startTime_check P);
     d \<leftarrow> z_number (raw_duration x) \<bind> z_min 5;
     f \<leftarrow> pdfFileSchema (raw_pdfFile x);
     qs \<leftarrow> z_array (questionSchema P) (raw_questions x) \<bind> z_min_length 1;
     Some \<lparr>title = t, batchId = b, startTime = s, duration = d, pdfFile = f, questions = qs\<rparr>
   }"

definition defaultQuestion :: QuestionInput where
  "defaultQuestion =
     \<lparr>raw_text = JStr [], raw_options = [JStr [], JStr [], JStr [], JStr []],
      raw_correctIndex = JNum (Num 0), raw_marks = JNum (Num 1)\<rparr>"

text \<open>
  The submit handler's \<open>try\<close> block has two steps. Step A posts the first attached file
  to \<open>/upload\<close> when there is one and yields the resource URL, or the error the request
  rejects with. Step B builds the exam record and posts it; \<open>toISOString\<close> throws a
  RangeError on an Invalid Date, before the request is made.
\<close>

definition upload_step ::
  "(js_error + UploadResponse) \<Rightarrow> ExamFormValues \<Rightarrow> effect list \<times> (js_error + string)" where
  "upload_step uploadRes data =
     (case pdfFile data of
        Some (f # fs) \<Rightarrow>
          ([HttpPost ''/upload'' (FormDataFile f)],
           (case uploadRes of Inl e \<Rightarrow> Inl e | Inr r \<Rightarrow> Inr (url r)))
      | _ \<Rightarrow> ([], Inr []))"

definition create_step ::
  "platform \<Rightarrow> (js_error + unit) \<Rightarrow> ExamFormValues \<Rightarrow> string \<Rightarrow> effect list \<times> js_error option" where
  "create_step P examRes data pdfUrl =
     (case Date_parse P (startTime data) of
        None \<Rightarrow> ([], Some (RangeError ''Invalid time value''))
      | Some t \<Rightarrow>
          ([HttpPost ''/exams'' (ExamPayload
              \<lparr>body_title = title data, body_batchId = batchId data,
               durationMinutes = duration data, body_startTime = toISOString P t,
               resourcePdfUrl = pdfUrl, body_questions = questions data\<rparr>)],
           (case examRes of Inl e \<Rightarrow> Some e | Inr _ \<Rightarrow> None)))"

definition exam_catch :: "js_error \<Rightarrow> effect list" where
  "exam_catch e =
     [ConsoleError (LogError e), Alert ''Failed to create exam. Please check your connection.'']"

text \<open>
  \<open>onSubmit\<close> of the exam creation page. The component state threaded through is
  \<open>isSubmitting\<close>, set at the start and cleared in the \<open>finally\<close> block.
\<close>

definition CreateExam_onSubmit ::
  "platform \<Rightarrow> (js_error + UploadResponse) \<Rightarrow> (js_error + unit) \<Rightarrow> ExamFormValues \<Rightarrow> bool
     \<Rightarrow> effect list \<times> bool" where
  "CreateExam_onSubmit P uploadRes examRes data isSubmitting =
     (let (up_effs, up) = upload_step uploadRes data in
      case up of
        Inl e \<Rightarrow> (up_effs @ exam_catch e, False)
      | Inr pdfUrl \<Rightarrow>
          (let (ex_effs, thrown) = create_step P examRes data pdfUrl in
           case thrown of
             Some e \<Rightarrow> (up_effs @ ex_effs @ exam_catch e, False)
           | None \<Rightarrow>
               (up_effs @ ex_effs @
                  [Alert ''Exam Created Successfully!'', NavigateTo ''/dashboard''], False)))"

subsection \<open>The question rows\<close>

text \<open>
  \<open>append\<close> and \<open>remove\<close> of the form library's field array, and the controls the page
  renders for them: "Add Question" always, a remove button on row \<open>i\<close> only while the
  list holds more than one row. Typing into a row replaces its content.
\<close>

definition fields_append :: "QuestionInput \<Rightarrow> QuestionInput list \<Rightarrow> QuestionInput list" where
  "fields_append q rows = rows @ [q]"

definition fields_remove :: "nat \<Rightarrow> QuestionInput list \<Rightarrow> QuestionInput list" where
  "fields_remove i rows = take i rows @ drop (Suc i) rows"

definition remove_rendered :: "QuestionInput list \<Rightarrow> nat \<Rightarrow> bool" where
  "remove_rendered rows i = (i < length rows \<and> 1 < length rows)"

datatype ui_action = ClickAdd | ClickRemove nat | EditRow nat QuestionInput

fun ui_step :: "QuestionInput list \<Rightarrow> ui_action \<Rightarrow> QuestionInput list" where
  "ui_step rows ClickAdd = fields_append defaultQuestion rows"
| "ui_step rows (ClickRemove i) = (if remove_rendered rows i then fields_remove i rows else rows)"
| "ui_step rows (EditRow i q) = (if i < length rows then rows[i := q] else rows)"

definition initial_fields :: "QuestionInput list" where
  "initial_fields = [defaultQuestion]"

definition fields_after :: "ui_action list \<Rightarrow> QuestionInput list" where
  "fields_after acts = foldl ui_step initial_fields acts"

section \<open>Routes\<close>

text \<open>
  What the router renders for a path. The token read from the store is a string or null,
  and the guard tests its truthiness, so the empty string counts as no token. The sources
  hold the router twice: \<open>App\<close> declares the two guarded routes \<open>/dashboard\<close> and
  \<open>/create-exam\<close>; \<open>App_dashboard_only\<close> is the router of \<open>App.tsx\<close>, which
  declares \<open>/dashboard\<close> alone and sends every other path except \<open>/login\<close> there.
\<close>

datatype element = LoginPage | DashboardPage | CreateExamPage | Navigate string

definition truthy :: "string option \<Rightarrow> bool" where
  "truthy t = (case t of None \<Rightarrow> False | Some s \<Rightarrow> s \<noteq> [])"

definition ProtectedRoute :: "AuthState \<Rightarrow> element \<Rightarrow> element" where
  "ProtectedRoute s children = (if truthy (token s) then children else Navigate ''/login'')"

definition App :: "AuthState \<Rightarrow> string \<Rightarrow> element" where
  "App s path =
     (if path = ''/login'' then LoginPage
      else if path = ''/dashboard'' then ProtectedRoute s DashboardPage
      else if path = ''/create-exam'' then ProtectedRoute s CreateExamPage
      else Navigate ''/dashboard'')"

definition App_dashboard_only :: "AuthState \<Rightarrow> string \<Rightarrow> element" where
  "App_dashboard_only s path =
     (if path = ''/login'' then LoginPage
      else if path = ''/dashboard'' then ProtectedRoute s DashboardPage
      else Navigate ''/dashboard'')"

section \<open>The schema constraints, in the specification's words\<close>

text \<open>
  The specification states the form constraints as properties of the entered values:
  minimum lengths, a well-formed email address, a start time in the future, numbers in a
  range, exactly four options, at least one question. They are written down here
  independently of the schemas, to be compared with them. The length of a string is the
  number of its code units, as the program counts it.
\<close>

definition string_of_min_length :: "nat \<Rightarrow> jsval \<Rightarrow> bool" where
  "string_of_min_length n v = (case v of JStr s \<Rightarrow> n \<le> length s | _ \<Rightarrow> False)"

definition well_formed_email :: "platform \<Rightarrow> jsval \<Rightarrow> bool" where
  "well_formed_email P v = (case v of JStr s \<Rightarrow> email_pattern P s | _ \<Rightarrow> False)"

definition strictly_in_future :: "platform \<Rightarrow> jsval \<Rightarrow> bool" where
  "strictly_in_future P v =
     (case v of
        JStr s \<Rightarrow> (case Date_parse P s of Some t \<Rightarrow> Date_now P < t | None \<Rightarrow> False)
      | _ \<Rightarrow> False)"

definition number_at_least :: "real \<Rightarrow> jsnum \<Rightarrow> bool" where
  "number_at_least lo n = (case n of Num r \<Rightarrow> lo \<le> r | NaN \<Rightarrow> False)"

definition number_between :: "real \<Rightarrow> real \<Rightarrow> jsnum \<Rightarrow> bool" where
  "number_between lo hi n = (case n of Num r \<Rightarrow> lo \<le> r \<and> r \<le> hi | NaN \<Rightarrow> False)"

definition entered_number :: "jsval \<Rightarrow> jsnum" where
  "entered_number v = (case v of JNum n \<Rightarrow> n | _ \<Rightarrow> NaN)"

definition login_constraints :: "platform \<Rightarrow> LoginFormInput \<Rightarrow> bool" where
  "login_constraints P x =
     (well_formed_email P (raw_email x) \<and> string_of_min_length 6 (raw_password x))"

definition question_constraints :: "platform \<Rightarrow> QuestionInput \<Rightarrow> bool" where
  "question_constraints P q =
     (string_of_min_length 1 (raw_text q) \<and>
      length (raw_options q) = 4 \<and>
      list_all (string_of_min_length 1) (raw_options q) \<and>
      number_between 0 3 (Number P (raw_correctIndex q)) \<and>
      number_at_least 1 (Number P (raw_marks q)))"

definition exam_constraints :: "platform \<Rightarrow> ExamFormInput \<Rightarrow> bool" where
  "exam_constraints P x =
     (string_of_min_length 3 (raw_title x) \<and>
      string_of_min_length 1 (raw_batchId x) \<and>
      strictly_in_future P (raw_startTime x) \<and>
      number_at_least 5 (entered_number (raw_duration x)) \<and>
      pdfFile_check (raw_pdfFile x) \<and>
      1 \<le> length (raw_questions x) \<and>
      list_all (question_constraints P) (raw_questions x))"

section \<open>A concrete platform and concrete inputs\<close>

text \<open>
  One instance of the platform, used to run the handlers on examples. It agrees with a
  browser on the strings the examples use: two \<open>datetime-local\<close> values read as UTC,
  the radio values \<open>0\<close> to \<open>3\<close>, and "contains an @" for the email pattern. The
  clock stands at 2026-11-02T00:00Z.
\<close>

definition sample_platform :: platform where
  "sample_platform =
     \<lparr>Date_parse = (\<lambda>s. if s = ''2030-01-01T10:00'' then Some 1893492000000
                        else if s = ''2020-01-01T10:00'' then Some 1577872800000
                        else None),
      Date_now = 1793577600000,
      toISOString = (\<lambda>t. if t = 1893492000000 then ''2030-01-01T10:00:00.000Z''
                         else if t = 1577872800000 then ''2020-01-01T10:00:00.000Z''
                         else []),
      Number_of_string = (\<lambda>s. if s = ''0'' \<or> s = [] then Num 0
                              else if s = ''1'' then Num 1
                              else if s = ''2'' then Num 2
                              else if s = ''3'' then Num 3
                              else NaN),
      email_pattern = (\<lambda>s. CHR ''@'' \<in> set s)\<rparr>"

definition sample_question :: QuestionInput where
  "sample_question =
     \<lparr>raw_text = JStr ''Unit of heat?'',
      raw_options = [JStr ''joule'', JStr ''watt'', JStr ''volt'', JStr ''ohm''],
      raw_correctIndex = JStr ''0'', raw_marks = JNum (Num 2)\<rparr>"

definition sample_parsed_question :: Question where
  "sample_parsed_question =
     \<lparr>question_text = ''Unit of heat?'', options = [''joule'', ''watt'', ''volt'', ''ohm''],
      correctIndex = 0, marks = 2\<rparr>"

definition sample_file :: File where
  "sample_file = \<lparr>file_name = ''paper.pdf'', file_size = 120000\<rparr>"

definition sample_exam :: ExamFormInput where
  "sample_exam =
     \<lparr>raw_title = JStr ''Unit 5: Heat'', raw_batchId = JStr ''b1'',
      raw_startTime = JStr ''2030-01-01T10:00'', raw_duration = JNum (Num 60),
      raw_pdfFile = Some [], raw_questions = [sample_question]\<rparr>"

definition sample_parsed_exam :: ExamFormValues where
  "sample_parsed_exam =
     \<lparr>title = ''Unit 5: Heat'', batchId = ''b1'', startTime = ''2030-01-01T10:00'',
      duration = 60, pdfFile = Some [], questions = [sample_parsed_question]\<rparr>"

definition sample_teacher :: User where
  "sample_teacher = \<lparr>role = ''TEACHER'', user_name = ''Nimal''\<rparr>"

definition sample_student :: User where
  "sample_student = \<lparr>role = ''STUDENT'', user_name = ''Kamal''\<rparr>"

definition logged_out :: AuthState where
  "logged_out = \<lparr>token = None, current_user = None\<rparr>"

definition sample_batch :: Batch where
  "sample_batch =
     \<lparr>batch_id = ''b1'', batch_name = ''2026 Revision'', code = ''REV26'', students = []\<rparr>"

section \<open>Facts about the combinators\<close>

lemma z_string_Some [simp]: "z_string v = Some s \<longleftrightarrow> v = JStr s"
  by (cases v) (auto simp: z_string_def)

lemma z_refine_Some [simp]: "z_refine c v = Some w \<longleftrightarrow> c v \<and> w = v"
  by (auto simp: z_refine_def)

lemma z_number_Some [simp]: "z_number v = Some r \<longleftrightarrow> v = JNum (Num r)"
proof (cases v)
  case (JNum n)
  then show ?thesis by (cases n) (auto simp: z_number_def)
qed (auto simp: z_number_def)

lemma string_min_Some:
  "(z_string v \<bind> z_min_length n) = Some s \<longleftrightarrow> v = JStr s \<and> n \<le> length s"
  by (auto simp: bind_eq_Some_conv z_min_length_def)

lemma string_min_accepts:
  "(\<exists>s. (z_string v \<bind> z_min_length n) = Some s) \<longleftrightarrow> string_of_min_length n v"
  by (cases v) (auto simp: string_min_Some string_of_min_length_def)

lemma z_array_Some: "z_array item xs = Some ys \<longleftrightarrow> list_all2 (\<lambda>x y. item x = Some y) xs ys"
proof (induction xs arbitrary: ys)
  case Nil
  then show ?case by (auto simp: z_array_def)
next
  case (Cons x xs)
  then show ?case
    by (cases ys) (auto simp: z_array_def split: option.splits)
qed

lemma z_array_accepts:
  "(\<exists>ys. z_array item xs = Some ys) \<longleftrightarrow> list_all (\<lambda>x. \<exists>y. item x = Some y) xs"
proof (induction xs)
  case Nil
  show ?case by (simp add: z_array_def)
next
  case (Cons x xs)
  then show ?case by (auto simp: z_array_Some list_all2_Cons1)
qed

lemma z_array_length: "z_array item xs = Some ys \<Longrightarrow> length ys = length xs"
  by (simp add: z_array_Some list_all2_lengthD)

lemma string_array_Some:
  "z_array (\<lambda>v. z_string v \<bind> z_min_length n) vs = Some ys \<longleftrightarrow>
     list_all2 (\<lambda>v opt. v = JStr opt \<and> n \<le> length opt) vs ys"
  by (simp only: z_array_Some string_min_Some)

section \<open>Facts about the schemas\<close>

lemma loginSchema_Some:
  "loginSchema P x = Some d \<longleftrightarrow>
     raw_email x = JStr (email d) \<and> email_pattern P (email d) \<and>
     raw_password x = JStr (password d) \<and> 6 \<le> length (password d)"
  by (cases d) (auto simp: loginSchema_def bind_eq_Some_conv z_email_def z_min_length_def)

lemma loginSchema_accepts_iff: "(\<exists>d. loginSchema P x = Some d) \<longleftrightarrow> login_constraints P x"
proof
  assume "\<exists>d. loginSchema P x = Some d"
  then obtain d where "loginSchema P x = Some d" ..
  then show "login_constraints P x"
    by (simp add: loginSchema_Some login_constraints_def well_formed_email_def
        string_of_min_length_def)
next
  assume c: "login_constraints P x"
  then obtain e where e: "raw_email x = JStr e" "email_pattern P e"
    by (auto simp: login_constraints_def well_formed_email_def split: jsval.splits)
  from c obtain p where p: "raw_password x = JStr p" "6 \<le> length p"
    by (auto simp: login_constraints_def string_of_min_length_def split: jsval.splits)
  from e p have "loginSchema P x = Some \<lparr>email = e, password = p\<rparr>"
    by (simp add: loginSchema_Some)
  then show "\<exists>d. loginSchema P x = Some d" ..
qed

lemma questionSchema_Some:
  "questionSchema P q = Some r \<longleftrightarrow>
     raw_text q = JStr (question_text r) \<and> 1 \<le> length (question_text r) \<and>
     list_all2 (\<lambda>v opt. v = JStr opt \<and> 1 \<le> length opt) (raw_options q) (options r) \<and>
     length (options r) = 4 \<and>
     Number P (raw_correctIndex q) = Num (correctIndex r) \<and>
     0 \<le> correctIndex r \<and> correctIndex r \<le> 3 \<and>
     Number P (raw_marks q) = Num (marks r) \<and> 1 \<le> marks r"
  unfolding questionSchema_def
  by (cases r)
    (auto simp: bind_eq_Some_conv z_min_length_def z_length_def z_coerce_number_def
      z_min_def z_max_def string_array_Some)

lemma pdfFileSchema_Some:
  "pdfFileSchema files = Some f \<longleftrightarrow> f = files \<and> pdfFile_check files"
  by (cases files) (auto simp: pdfFileSchema_def z_optional_def pdfFile_check_def)

lemma examSchema_Some:
  "examSchema P x = Some d \<longleftrightarrow>
     raw_title x = JStr (title d) \<and> 3 \<le> length (title d) \<and>
     raw_batchId x = JStr (batchId d) \<and> 1 \<le> length (batchId d) \<and>
     raw_startTime x = JStr (startTime d) \<and> startTime_check P (startTime d) \<and>
     raw_duration x = JNum (Num (duration d)) \<and> 5 \<le> duration d \<and>
     pdfFile d = raw_pdfFile x \<and> pdfFile_check (raw_pdfFile x) \<and>
     list_all2 (\<lambda>q r. questionSchema P q = Some r) (raw_questions x) (questions d) \<and>
     1 \<le> length (questions d)"
  unfolding examSchema_def
  by (cases d)
    (auto simp: bind_eq_Some_conv z_min_length_def z_min_def pdfFileSchema_Some z_array_Some)

lemma questionSchema_accepts_iff:
  "(\<exists>r. questionSchema P q = Some r) \<longleftrightarrow> question_constraints P q"
proof
  assume "\<exists>r. questionSchema P q = Some r"
  then obtain r where r: "questionSchema P q = Some r" ..
  then have opts: "list_all2 (\<lambda>v opt. v = JStr opt \<and> 1 \<le> length opt) (raw_options q) (options r)"
    and len: "length (options r) = 4"
    by (simp_all add: questionSchema_Some)
  from opts have "list_all (string_of_min_length 1) (raw_options q)"
    by (auto simp: list_all_iff in_set_conv_nth list_all2_conv_all_nth string_of_min_length_def)
  moreover from opts len have "length (raw_options q) = 4"
    by (simp add: list_all2_lengthD)
  ultimately show "question_constraints P q"
    using r by (simp add: questionSchema_Some question_constraints_def string_of_min_length_def
        number_between_def number_at_least_def)
next
  assume c: "question_constraints P q"
  then obtain t where t: "raw_text q = JStr t" "1 \<le> length t"
    by (auto simp: question_constraints_def string_of_min_length_def split: jsval.splits)
  from c obtain ci where ci: "Number P (raw_correctIndex q) = Num ci" "0 \<le> ci" "ci \<le> 3"
    by (auto simp: question_constraints_def number_between_def split: jsnum.splits)
  from c obtain m where m: "Number P (raw_marks q) = Num m" "1 \<le> m"
    by (auto simp: question_constraints_def number_at_least_def split: jsnum.splits)
  from c have "list_all (\<lambda>v. \<exists>s. (z_string v \<bind> z_min_length 1) = Some s) (raw_options q)"
    by (simp only: string_min_accepts question_constraints_def)
  then obtain os where os: "z_array (\<lambda>v. z_string v \<bind> z_min_length 1) (raw_options q) = Some os"
    using z_array_accepts by blast
  then have "list_all2 (\<lambda>v opt. v = JStr opt \<and> 1 \<le> length opt) (raw_options q) os"
    by (simp only: string_array_Some)
  moreover from os c have "length os = 4"
    by (simp add: z_array_length question_constraints_def)
  ultimately have "questionSchema P q =
      Some \<lparr>question_text = t, options = os, correctIndex = ci, marks = m\<rparr>"
    using t ci m by (simp add: questionSchema_Some)
  then show "\<exists>r. questionSchema P q = Some r" ..
qed

lemma examSchema_accepts_iff:
  "(\<exists>d. examSchema P x = Some d) \<longleftrightarrow> exam_constraints P x"
proof
  assume "\<exists>d. examSchema P x = Some d"
  then obtain d where d: "examSchema P x = Some d" ..
  then have qs: "list_all2 (\<lambda>q r. questionSchema P q = Some r) (raw_questions x) (questions d)"
    and len: "1 \<le> length (questions d)"
    by (simp_all add: examSchema_Some)
  from qs have "list_all (\<lambda>q. \<exists>r. questionSchema P q = Some r) (raw_questions x)"
    using z_array_Some z_array_accepts by blast
  then have "list_all (question_constraints P) (raw_questions x)"
    by (simp only: questionSchema_accepts_iff)
  moreover from qs len have "1 \<le> length (raw_questions x)"
    by (simp add: list_all2_lengthD)
  ultimately show "exam_constraints P x"
    using d by (simp add: examSchema_Some exam_constraints_def string_of_min_length_def
        strictly_in_future_def startTime_check_def number_at_least_def entered_number_def)
next
  assume c: "exam_constraints P x"
  then obtain t where t: "raw_title x = JStr t" "3 \<le> length t"
    by (auto simp: exam_constraints_def string_of_min_length_def split: jsval.splits)
  from c obtain b where b: "raw_batchId x = JStr b" "1 \<le> length b"
    by (auto simp: exam_constraints_def string_of_min_length_def split: jsval.splits)
  from c obtain s where s: "raw_startTime x = JStr s" "startTime_check P s"
    by (auto simp: exam_constraints_def strictly_in_future_def startTime_check_def
        split: jsval.splits)
  from c obtain dur where dur: "raw_duration x = JNum (Num dur)" "5 \<le> dur"
    by (auto simp: exam_constraints_def number_at_least_def entered_number_def
        split: jsval.splits jsnum.splits)
  from c have pdf: "pdfFile_check (raw_pdfFile x)" by (simp add: exam_constraints_def)
  from c have "list_all (\<lambda>q. \<exists>r. questionSchema P q = Some r) (raw_questions x)"
    by (simp only: questionSchema_accepts_iff exam_constraints_def)
  then obtain qs where qs: "z_array (questionSchema P) (raw_questions x) = Some qs"
    using z_array_accepts by blast
  then have "list_all2 (\<lambda>q r. questionSchema P q = Some r) (raw_questions x) qs"
    by (simp only: z_array_Some)
  moreover from qs c have "1 \<le> length qs"
    by (simp add: z_array_length exam_constraints_def)
  ultimately have "examSchema P x =
      Some \<lparr>title = t, batchId = b, startTime = s, duration = dur,
            pdfFile = raw_pdfFile x, questions = qs\<rparr>"
    using t b s dur pdf by (simp add: examSchema_Some)
  then show "\<exists>d. examSchema P x = Some d" ..
qed

lemma startTime_check_parses: "startTime_check P s \<Longrightarrow> \<exists>t. Date_parse P s = Some t"
  by (auto simp: startTime_check_def split: option.splits)

lemma examSchema_attach:
  "examSchema P x = Some d \<Longrightarrow> pdfFile_check files \<Longrightarrow>
     examSchema P (x\<lparr>raw_pdfFile := files\<rparr>) = Some (d\<lparr>pdfFile := files\<rparr>)"
  by (simp add: examSchema_Some)

section \<open>The sample inputs pass validation\<close>

lemma sample_question_parses:
  "questionSchema sample_platform sample_question = Some sample_parsed_question"
  by (simp add: questionSchema_Some sample_question_def sample_parsed_question_def
      sample_platform_def)

lemma sample_exam_parses: "examSchema sample_platform sample_exam = Some sample_parsed_exam"
proof -
  have "startTime_check sample_platform ''2030-01-01T10:00''"
    by (simp add: startTime_check_def sample_platform_def)
  then show ?thesis
    by (simp add: examSchema_Some sample_exam_def sample_parsed_exam_def sample_question_parses
        pdfFile_check_def)
qed

lemma sample_exam_constraints: "exam_constraints sample_platform sample_exam"
  using sample_exam_parses examSchema_accepts_iff by blast

lemma sample_exam_with_file_parses:
  "examSchema sample_platform (sample_exam\<lparr>raw_pdfFile := Some [sample_file]\<rparr>) =
     Some (sample_parsed_exam\<lparr>pdfFile := Some [sample_file]\<rparr>)"
  by (rule examSchema_attach [OF sample_exam_parses]) (simp add: pdfFile_check_def sample_file_def)

section \<open>Facts about effect lists\<close>

lemma requests_simps:
  "requests [] = []"
  "requests (HttpGet p # es) = HttpGet p # requests es"
  "requests (HttpPost p b # es) = HttpPost p b # requests es"
  "requests (Alert m # es) = requests es"
  "requests (Prompt m # es) = requests es"
  "requests (ConsoleError l # es) = requests es"
  "requests (NavigateTo p # es) = requests es"
  "requests (es @ es') = requests es @ requests es'"
  by (simp_all add: requests_def)

lemma alerts_simps:
  "alerts [] = []"
  "alerts (HttpGet p # es) = alerts es"
  "alerts (HttpPost p b # es) = alerts es"
  "alerts (Alert m # es) = m # alerts es"
  "alerts (Prompt m # es) = alerts es"
  "alerts (ConsoleError l # es) = alerts es"
  "alerts (NavigateTo p # es) = alerts es"
  "alerts (es @ es') = alerts es @ alerts es'"
  by (simp_all add: alerts_def)

lemma navigations_simps:
  "navigations [] = []"
  "navigations (HttpGet p # es) = navigations es"
  "navigations (HttpPost p b # es) = navigations es"
  "navigations (Alert m # es) = navigations es"
  "navigations (Prompt m # es) = navigations es"
  "navigations (ConsoleError l # es) = navigations es"
  "navigations (NavigateTo p # es) = p # navigations es"
  "navigations (es @ es') = navigations es @ navigations es'"
  by (simp_all add: navigations_def)

lemma posts_to_simps:
  "posts_to q [] = []"
  "posts_to q (HttpGet p # es) = posts_to q es"
  "posts_to q (HttpPost p b # es) = (if p = q then b # posts_to q es else posts_to q es)"
  "posts_to q (Alert m # es) = posts_to q es"
  "posts_to q (Prompt m # es) = posts_to q es"
  "posts_to q (ConsoleError l # es) = posts_to q es"
  "posts_to q (NavigateTo p # es) = posts_to q es"
  by (simp_all add: posts_to_def)

section \<open>Facts about the question rows\<close>

lemma ui_step_nonempty: "rows \<noteq> [] \<Longrightarrow> ui_step rows a \<noteq> []"
proof (cases a)
  case ClickAdd
  then show ?thesis by (simp add: fields_append_def)
next
  case (ClickRemove i)
  assume ne: "rows \<noteq> []"
  show ?thesis
  proof (cases "remove_rendered rows i")
    case True
    then have "i < length rows" "1 < length rows" by (simp_all add: remove_rendered_def)
    then have "length (fields_remove i rows) = length rows - 1"
      by (simp add: fields_remove_def)
    with \<open>1 < length rows\<close> have "length (fields_remove i rows) \<noteq> 0" by simp
    with True ClickRemove show ?thesis by auto
  next
    case False
    with ne ClickRemove show ?thesis by simp
  qed
next
  case (EditRow i q)
  assume "rows \<noteq> []"
  with EditRow show ?thesis by simp
qed

lemma foldl_ui_step_nonempty: "rows \<noteq> [] \<Longrightarrow> foldl ui_step rows acts \<noteq> []"
  by (induction acts arbitrary: rows) (simp_all add: ui_step_nonempty)

section \<open>Login: only teachers proceed\<close>

text \<open>
  Claim C1. For every response to the login request, i.e. whenever the request resolves:
  if the returned user's role is not the teacher role (the literal \<open>TEACHER\<close>), the
  submit handler shows the access-denied alert, leaves the auth store as it was (neither
  token nor user is stored) and does not navigate; if the role is the teacher role, the
  store's login mutator is applied to the returned token and user, so both are stored,
  and the handler navigates to \<open>/dashboard\<close> without any alert.
\<close>

theorem Login_onSubmit_role_gate:
  "Login_onSubmit (Inr r) data s = (effs, s') \<Longrightarrow>
     (role (user r) \<noteq> ''TEACHER'' \<longrightarrow>
        alerts effs = [''Access Denied: Student accounts cannot access the dashboard.''] \<and>
        s' = s \<and> navigations effs = []) \<and>
     (role (user r) = ''TEACHER'' \<longrightarrow>
        s' = login (access_token r) (user r) s \<and>
        token s' = Some (access_token r) \<and> current_user s' = Some (user r) \<and>
        navigations effs = [''/dashboard''] \<and> alerts effs = [])"
  by (auto simp: Login_onSubmit_def alerts_def navigations_def login_def)

text \<open>The theorem at a student's and at a teacher's login response.\<close>

theorem Login_onSubmit_role_gate_witness:
  "alerts (fst (Login_onSubmit (Inr \<lparr>access_token = ''tok'', user = sample_student\<rparr>)
       \<lparr>email = ''kamal@school.lk'', password = ''secret1''\<rparr> logged_out)) =
     [''Access Denied: Student accounts cannot access the dashboard.''] \<and>
   snd (Login_onSubmit (Inr \<lparr>access_token = ''tok'', user = sample_student\<rparr>)
       \<lparr>email = ''kamal@school.lk'', password = ''secret1''\<rparr> logged_out) = logged_out \<and>
   token (snd (Login_onSubmit (Inr \<lparr>access_token = ''tok'', user = sample_teacher\<rparr>)
       \<lparr>email = ''nimal@school.lk'', password = ''secret1''\<rparr> logged_out)) = Some ''tok'' \<and>
   navigations (fst (Login_onSubmit (Inr \<lparr>access_token = ''tok'', user = sample_teacher\<rparr>)
       \<lparr>email = ''nimal@school.lk'', password = ''secret1''\<rparr> logged_out)) = [''/dashboard'']"
proof -
  let ?rs = "\<lparr>access_token = ''tok'', user = sample_student\<rparr>"
  let ?rt = "\<lparr>access_token = ''tok'', user = sample_teacher\<rparr>"
  let ?ds = "\<lparr>email = ''kamal@school.lk'', password = ''secret1''\<rparr>"
  let ?dt = "\<lparr>email = ''nimal@school.lk'', password = ''secret1''\<rparr>"
  have hs: "role (user ?rs) \<noteq> ''TEACHER''" by (simp add: sample_student_def)
  have ht: "role (user ?rt) = ''TEACHER''" by (simp add: sample_teacher_def)
  have es: "Login_onSubmit (Inr ?rs) ?ds logged_out =
      (fst (Login_onSubmit (Inr ?rs) ?ds logged_out), snd (Login_onSubmit (Inr ?rs) ?ds logged_out))"
    by simp
  have et: "Login_onSubmit (Inr ?rt) ?dt logged_out =
      (fst (Login_onSubmit (Inr ?rt) ?dt logged_out), snd (Login_onSubmit (Inr ?rt) ?dt logged_out))"
    by simp
  from Login_onSubmit_role_gate [OF es] hs
  have "alerts (fst (Login_onSubmit (Inr ?rs) ?ds logged_out)) =
          [''Access Denied: Student accounts cannot access the dashboard.''] \<and>
        snd (Login_onSubmit (Inr ?rs) ?ds logged_out) = logged_out"
    by blast
  moreover from Login_onSubmit_role_gate [OF et] ht
  have "token (snd (Login_onSubmit (Inr ?rt) ?dt logged_out)) = Some (access_token ?rt) \<and>
        navigations (fst (Login_onSubmit (Inr ?rt) ?dt logged_out)) = [''/dashboard'']"
    by blast
  ultimately show ?thesis by simp
qed

section \<open>What a failing request leads to\<close>

text \<open>
  Claim C2, as amended. A failing login request results in the modal alert "Invalid
  Credentials" and nothing else. A failing exam creation, whether the upload or the exam
  request fails, results in a console trace of the error and the modal alert "Failed to
  create exam. Please check your connection.", without navigation. A failing batch list
  fetch on the dashboard results in the console trace "Failed to fetch batches" only:
  there is no alert, and the batch list is unchanged.
\<close>

theorem failures_reported:
  "fst (Login_onSubmit (Inl e) data s) =
     [HttpPost ''/auth/login'' (LoginPayload data), Alert ''Invalid Credentials''] \<and>
   snd (Login_onSubmit (Inl e) data s) = s \<and>
   fetchBatches (Inl e) batches =
     ([HttpGet ''/batches'', ConsoleError (LogText ''Failed to fetch batches'')], batches) \<and>
   (pdfFile d = Some (f # fs) \<longrightarrow>
      fst (CreateExam_onSubmit P (Inl e) examRes d b) =
        [HttpPost ''/upload'' (FormDataFile f), ConsoleError (LogError e),
         Alert ''Failed to create exam. Please check your connection.'']) \<and>
   (snd (upload_step uploadRes d) = Inr u \<and> Date_parse P (startTime d) = Some t \<longrightarrow>
      alerts (fst (CreateExam_onSubmit P uploadRes (Inl e) d b)) =
        [''Failed to create exam. Please check your connection.''] \<and>
      ConsoleError (LogError e) \<in> set (fst (CreateExam_onSubmit P uploadRes (Inl e) d b)) \<and>
      navigations (fst (CreateExam_onSubmit P uploadRes (Inl e) d b)) = [])"
proof (intro conjI impI)
  show "fst (Login_onSubmit (Inl e) data s) =
     [HttpPost ''/auth/login'' (LoginPayload data), Alert ''Invalid Credentials'']"
    by (simp add: Login_onSubmit_def)
  show "snd (Login_onSubmit (Inl e) data s) = s"
    by (simp add: Login_onSubmit_def)
  show "fetchBatches (Inl e) batches =
     ([HttpGet ''/batches'', ConsoleError (LogText ''Failed to fetch batches'')], batches)"
    by (simp add: fetchBatches_def)
next
  assume "pdfFile d = Some (f # fs)"
  then show "fst (CreateExam_onSubmit P (Inl e) examRes d b) =
        [HttpPost ''/upload'' (FormDataFile f), ConsoleError (LogError e),
         Alert ''Failed to create exam. Please check your connection.'']"
    by (simp add: CreateExam_onSubmit_def upload_step_def exam_catch_def)
next
  assume h: "snd (upload_step uploadRes d) = Inr u \<and> Date_parse P (startTime d) = Some t"
  then obtain pre where up: "upload_step uploadRes d = (pre, Inr u)"
    by (cases "upload_step uploadRes d") auto
  then have pre: "alerts pre = []" "navigations pre = []"
    by (auto simp: upload_step_def alerts_simps navigations_simps
        split: option.splits list.splits sum.splits)
  from up h have run: "fst (CreateExam_onSubmit P uploadRes (Inl e) d b) =
      pre @ [HttpPost ''/exams'' (ExamPayload
              \<lparr>body_title = title d, body_batchId = batchId d,
               durationMinutes = duration d, body_startTime = toISOString P t,
               resourcePdfUrl = u, body_questions = questions d\<rparr>),
             ConsoleError (LogError e),
             Alert ''Failed to create exam. Please check your connection.'']"
    by (simp add: CreateExam_onSubmit_def create_step_def exam_catch_def)
  from run pre show "alerts (fst (CreateExam_onSubmit P uploadRes (Inl e) d b)) =
        [''Failed to create exam. Please check your connection.'']"
    by (simp add: alerts_simps)
  from run show "ConsoleError (LogError e) \<in> set (fst (CreateExam_onSubmit P uploadRes (Inl e) d b))"
    by simp
  from run pre show "navigations (fst (CreateExam_onSubmit P uploadRes (Inl e) d b)) = []"
    by (simp add: navigations_simps)
qed

text \<open>
  The theorem at an exam submission whose upload fails and at one whose exam request
  fails.
\<close>

theorem failures_reported_witness:
  "fst (CreateExam_onSubmit sample_platform (Inl (AxiosError ''Network Error'')) (Inr ())
      (sample_parsed_exam\<lparr>pdfFile := Some [sample_file]\<rparr>) False) =
     [HttpPost ''/upload'' (FormDataFile sample_file),
      ConsoleError (LogError (AxiosError ''Network Error'')),
      Alert ''Failed to create exam. Please check your connection.''] \<and>
   alerts (fst (CreateExam_onSubmit sample_platform (Inr \<lparr>url = ''/files/paper.pdf''\<rparr>)
      (Inl (AxiosError ''Network Error'')) sample_parsed_exam False)) =
     [''Failed to create exam. Please check your connection.''] \<and>
   navigations (fst (CreateExam_onSubmit sample_platform (Inr \<lparr>url = ''/files/paper.pdf''\<rparr>)
      (Inl (AxiosError ''Network Error'')) sample_parsed_exam False)) = []"
proof -
  let ?e = "AxiosError ''Network Error''"
  let ?up = "Inr \<lparr>url = ''/files/paper.pdf''\<rparr> :: js_error + UploadResponse"
  let ?d = "sample_parsed_exam\<lparr>pdfFile := Some [sample_file]\<rparr>"
  have att: "pdfFile ?d = Some (sample_file # [])" by simp
  have ok: "snd (upload_step ?up sample_parsed_exam) = Inr [] \<and>
      Date_parse sample_platform (startTime sample_parsed_exam) = Some 1893492000000"
    by (simp add: upload_step_def sample_parsed_exam_def sample_platform_def)
  from failures_reported [where e = ?e and d = ?d and f = sample_file and fs = "[]"
      and P = sample_platform and examRes = "Inr ()" and b = False] att
  have "fst (CreateExam_onSubmit sample_platform (Inl ?e) (Inr ()) ?d False) =
     [HttpPost ''/upload'' (FormDataFile sample_file), ConsoleError (LogError ?e),
      Alert ''Failed to create exam. Please check your connection.'']"
    by blast
  moreover
  from failures_reported [where e = ?e and d = sample_parsed_exam and P = sample_platform
      and b = False and uploadRes = ?up and u = "[]" and t = 1893492000000] ok
  have "alerts (fst (CreateExam_onSubmit sample_platform ?up (Inl ?e) sample_parsed_exam False)) =
     [''Failed to create exam. Please check your connection.''] \<and>
   navigations (fst (CreateExam_onSubmit sample_platform ?up (Inl ?e) sample_parsed_exam False)) = []"
    by blast
  ultimately show ?thesis by simp
qed

text \<open>
  The claim as first stated has every failure end in a modal alert. A failing batch list
  fetch shows none.
\<close>

theorem fetchBatches_failure_counterexample:
  "fetchBatches (Inl (AxiosError ''Network Error'')) [sample_batch] =
     ([HttpGet ''/batches'', ConsoleError (LogText ''Failed to fetch batches'')], [sample_batch]) \<and>
   alerts (fst (fetchBatches (Inl (AxiosError ''Network Error'')) [sample_batch])) = []"
  by (simp add: fetchBatches_def alerts_simps)

section \<open>Exam form validation\<close>

text \<open>
  Claim C3. The exam form's validation rejects an input whenever its start time is not
  strictly in the future, or some question has an options list whose length is not 4, or
  the list of questions is empty; the submit handler is then not called, so no request is
  issued. An input that satisfies all the schema constraints is accepted, and the submit
  handler is called with the parsed data.
\<close>

theorem examSchema_validation:
  "((\<not> strictly_in_future P (raw_startTime x) \<or>
     list_ex (\<lambda>q. length (raw_options q) \<noteq> 4) (raw_questions x) \<or>
     raw_questions x = []) \<longrightarrow>
      examSchema P x = None \<and>
      handleSubmit (examSchema P) (CreateExam_onSubmit P uploadRes examRes) x s = ([], s)) \<and>
   (exam_constraints P x \<longrightarrow>
      (\<exists>d. examSchema P x = Some d \<and>
           handleSubmit (examSchema P) (CreateExam_onSubmit P uploadRes examRes) x s =
             CreateExam_onSubmit P uploadRes examRes d s))"
proof (intro conjI impI)
  assume bad: "\<not> strictly_in_future P (raw_startTime x) \<or>
     list_ex (\<lambda>q. length (raw_options q) \<noteq> 4) (raw_questions x) \<or> raw_questions x = []"
  have "\<not> exam_constraints P x"
  proof
    assume c: "exam_constraints P x"
    then have "list_all (question_constraints P) (raw_questions x)"
      by (simp add: exam_constraints_def)
    then have "\<not> list_ex (\<lambda>q. length (raw_options q) \<noteq> 4) (raw_questions x)"
      by (auto simp: list_all_iff list_ex_iff question_constraints_def)
    moreover from c have "strictly_in_future P (raw_startTime x)" "raw_questions x \<noteq> []"
      by (auto simp: exam_constraints_def)
    ultimately show False using bad by blast
  qed
  then have "\<not> (\<exists>d. examSchema P x = Some d)" using examSchema_accepts_iff by blast
  then show none: "examSchema P x = None" by simp
  then show "handleSubmit (examSchema P) (CreateExam_onSubmit P uploadRes examRes) x s = ([], s)"
    by (simp add: handleSubmit_def)
next
  assume "exam_constraints P x"
  then obtain d where d: "examSchema P x = Some d" using examSchema_accepts_iff by blast
  then have "handleSubmit (examSchema P) (CreateExam_onSubmit P uploadRes examRes) x s =
      CreateExam_onSubmit P uploadRes examRes d s"
    by (simp add: handleSubmit_def)
  with d show "\<exists>d. examSchema P x = Some d \<and>
      handleSubmit (examSchema P) (CreateExam_onSubmit P uploadRes examRes) x s =
        CreateExam_onSubmit P uploadRes examRes d s"
    by blast
qed

text \<open>
  The theorem at a start time in 2020, at a question with three options, at an empty
  question list and at an input that satisfies every constraint.
\<close>

theorem examSchema_validation_witness:
  "examSchema sample_platform (sample_exam\<lparr>raw_startTime := JStr ''2020-01-01T10:00''\<rparr>) = None \<and>
   examSchema sample_platform (sample_exam\<lparr>raw_questions :=
       [sample_question\<lparr>raw_options := [JStr ''joule'', JStr ''watt'', JStr ''volt'']\<rparr>]\<rparr>) = None \<and>
   examSchema sample_platform (sample_exam\<lparr>raw_questions := []\<rparr>) = None \<and>
   handleSubmit (examSchema sample_platform)
     (CreateExam_onSubmit sample_platform (Inr \<lparr>url = ''/files/paper.pdf''\<rparr>) (Inr ()))
     (sample_exam\<lparr>raw_questions := []\<rparr>) False = ([], False) \<and>
   examSchema sample_platform sample_exam \<noteq> None"
proof -
  let ?past = "sample_exam\<lparr>raw_startTime := JStr ''2020-01-01T10:00''\<rparr>"
  let ?three = "sample_exam\<lparr>raw_questions :=
       [sample_question\<lparr>raw_options := [JStr ''joule'', JStr ''watt'', JStr ''volt'']\<rparr>]\<rparr>"
  let ?none = "sample_exam\<lparr>raw_questions := []\<rparr>"
  let ?up = "Inr \<lparr>url = ''/files/paper.pdf''\<rparr> :: js_error + UploadResponse"
  let ?ex = "Inr () :: js_error + unit"
  have h1: "\<not> strictly_in_future sample_platform (raw_startTime ?past)"
    by (simp add: strictly_in_future_def sample_platform_def)
  have h2: "list_ex (\<lambda>q. length (raw_options q) \<noteq> 4) (raw_questions ?three)"
    by simp
  have h3: "raw_questions ?none = []"
    by simp
  from examSchema_validation [of sample_platform ?past ?up ?ex False] h1
  have "examSchema sample_platform ?past = None" by blast
  moreover from examSchema_validation [of sample_platform ?three ?up ?ex False] h2
  have "examSchema sample_platform ?three = None" by blast
  moreover from examSchema_validation [of sample_platform ?none ?up ?ex False] h3
  have "examSchema sample_platform ?none = None \<and>
     handleSubmit (examSchema sample_platform) (CreateExam_onSubmit sample_platform ?up ?ex)
       ?none False = ([], False)" by blast
  moreover from examSchema_validation [of sample_platform sample_exam ?up ?ex False]
    sample_exam_constraints
  have "examSchema sample_platform sample_exam \<noteq> None" by auto
  ultimately show ?thesis by simp
qed

section \<open>Requests of an exam submission\<close>

text \<open>
  Claim C4, as amended. For every valid exam form submission the start time parses to a
  date, and the requests the submit handler issues are, in order: when no file is attached,
  exactly one POST to \<open>/exams\<close> and no upload; when a file is attached and the upload
  succeeds, one POST to \<open>/upload\<close> with the file followed by exactly one POST to
  \<open>/exams\<close>; when a file is attached and the upload fails, the POST to \<open>/upload\<close>
  alone, and no POST to \<open>/exams\<close>. The body posted to \<open>/exams\<close> holds the entered
  title and batch id, \<open>durationMinutes\<close> equal to the entered duration, \<open>startTime\<close>
  equal to the entered start time converted to ISO-8601, the questions list, and as
  \<open>resourcePdfUrl\<close> the url the upload returned, or the empty string when there was no
  upload.
\<close>

theorem CreateExam_submit_requests:
  assumes valid: "examSchema P x = Some d"
  shows "\<exists>t. Date_parse P (startTime d) = Some t \<and>
     raw_title x = JStr (title d) \<and> raw_batchId x = JStr (batchId d) \<and>
     raw_duration x = JNum (Num (duration d)) \<and> raw_startTime x = JStr (startTime d) \<and>
     requests (fst (handleSubmit (examSchema P) (CreateExam_onSubmit P uploadRes examRes) x s)) =
       (case pdfFile d of
          Some (f # fs) \<Rightarrow>
            (case uploadRes of
               Inl e \<Rightarrow> [HttpPost ''/upload'' (FormDataFile f)]
             | Inr r \<Rightarrow>
                 [HttpPost ''/upload'' (FormDataFile f),
                  HttpPost ''/exams'' (ExamPayload
                    \<lparr>body_title = title d, body_batchId = batchId d,
                     durationMinutes = duration d, body_startTime = toISOString P t,
                     resourcePdfUrl = url r, body_questions = questions d\<rparr>)])
        | _ \<Rightarrow>
            [HttpPost ''/exams'' (ExamPayload
               \<lparr>body_title = title d, body_batchId = batchId d,
                durationMinutes = duration d, body_startTime = toISOString P t,
                resourcePdfUrl = [], body_questions = questions d\<rparr>)])"
proof -
  from valid have "startTime_check P (startTime d)" by (simp add: examSchema_Some)
  then obtain t where t: "Date_parse P (startTime d) = Some t"
    using startTime_check_parses by blast
  from valid have entered: "raw_title x = JStr (title d)" "raw_batchId x = JStr (batchId d)"
    "raw_duration x = JNum (Num (duration d))" "raw_startTime x = JStr (startTime d)"
    by (simp_all add: examSchema_Some)
  from valid have run: "handleSubmit (examSchema P) (CreateExam_onSubmit P uploadRes examRes) x s =
      CreateExam_onSubmit P uploadRes examRes d s"
    by (simp add: handleSubmit_def)
  have "requests (fst (CreateExam_onSubmit P uploadRes examRes d s)) =
       (case pdfFile d of
          Some (f # fs) \<Rightarrow>
            (case uploadRes of
               Inl e \<Rightarrow> [HttpPost ''/upload'' (FormDataFile f)]
             | Inr r \<Rightarrow>
                 [HttpPost ''/upload'' (FormDataFile f),
                  HttpPost ''/exams'' (ExamPayload
                    \<lparr>body_title = title d, body_batchId = batchId d,
                     durationMinutes = duration d, body_startTime = toISOString P t,
                     resourcePdfUrl = url r, body_questions = questions d\<rparr>)])
        | _ \<Rightarrow>
            [HttpPost ''/exams'' (ExamPayload
               \<lparr>body_title = title d, body_batchId = batchId d,
                durationMinutes = duration d, body_startTime = toISOString P t,
                resourcePdfUrl = [], body_questions = questions d\<rparr>)])"
    using t
    by (simp add: CreateExam_onSubmit_def upload_step_def create_step_def exam_catch_def
        requests_simps split: option.splits list.splits sum.splits)
  with t entered run show ?thesis by simp
qed

text \<open>
  The theorem at the sample exam without an attachment, and with one whose upload
  succeeds.
\<close>

theorem CreateExam_submit_requests_witness:
  "requests (fst (handleSubmit (examSchema sample_platform)
      (CreateExam_onSubmit sample_platform (Inr \<lparr>url = ''/files/paper.pdf''\<rparr>) (Inr ()))
      sample_exam False)) =
     [HttpPost ''/exams'' (ExamPayload
        \<lparr>body_title = ''Unit 5: Heat'', body_batchId = ''b1'', durationMinutes = 60,
         body_startTime = ''2030-01-01T10:00:00.000Z'', resourcePdfUrl = [],
         body_questions = [sample_parsed_question]\<rparr>)] \<and>
   requests (fst (handleSubmit (examSchema sample_platform)
      (CreateExam_onSubmit sample_platform (Inr \<lparr>url = ''/files/paper.pdf''\<rparr>) (Inr ()))
      (sample_exam\<lparr>raw_pdfFile := Some [sample_file]\<rparr>) False)) =
     [HttpPost ''/upload'' (FormDataFile sample_file),
      HttpPost ''/exams'' (ExamPayload
        \<lparr>body_title = ''Unit 5: Heat'', body_batchId = ''b1'', durationMinutes = 60,
         body_startTime = ''2030-01-01T10:00:00.000Z'', resourcePdfUrl = ''/files/paper.pdf'',
         body_questions = [sample_parsed_question]\<rparr>)]"
proof -
  let ?up = "Inr \<lparr>url = ''/files/paper.pdf''\<rparr> :: js_error + UploadResponse"
  let ?ex = "Inr () :: js_error + unit"
  have iso: "\<And>t. Date_parse sample_platform ''2030-01-01T10:00'' = Some t \<Longrightarrow>
      toISOString sample_platform t = ''2030-01-01T10:00:00.000Z''"
    by (simp add: sample_platform_def)
  from CreateExam_submit_requests [OF sample_exam_parses, of ?up ?ex False] iso
  have a: "requests (fst (handleSubmit (examSchema sample_platform)
      (CreateExam_onSubmit sample_platform ?up ?ex) sample_exam False)) =
     [HttpPost ''/exams'' (ExamPayload
        \<lparr>body_title = ''Unit 5: Heat'', body_batchId = ''b1'', durationMinutes = 60,
         body_startTime = ''2030-01-01T10:00:00.000Z'', resourcePdfUrl = [],
         body_questions = [sample_parsed_question]\<rparr>)]"
    by (auto simp: sample_parsed_exam_def)
  from CreateExam_submit_requests [OF sample_exam_with_file_parses, of ?up ?ex False] iso
  have b: "requests (fst (handleSubmit (examSchema sample_platform)
      (CreateExam_onSubmit sample_platform ?up ?ex)
      (sample_exam\<lparr>raw_pdfFile := Some [sample_file]\<rparr>) False)) =
     [HttpPost ''/upload'' (FormDataFile sample_file),
      HttpPost ''/exams'' (ExamPayload
        \<lparr>body_title = ''Unit 5: Heat'', body_batchId = ''b1'', durationMinutes = 60,
         body_startTime = ''2030-01-01T10:00:00.000Z'', resourcePdfUrl = ''/files/paper.pdf'',
         body_questions = [sample_parsed_question]\<rparr>)]"
    by (auto simp: sample_parsed_exam_def)
  from a b show ?thesis by (rule conjI)
qed

text \<open>
  The claim as first stated asks for a POST to \<open>/exams\<close> on every valid submission.
  A valid submission with an attachment whose upload is rejected issues none.
\<close>

theorem CreateExam_upload_failure_counterexample:
  "examSchema sample_platform (sample_exam\<lparr>raw_pdfFile := Some [sample_file]\<rparr>) =
     Some (sample_parsed_exam\<lparr>pdfFile := Some [sample_file]\<rparr>) \<and>
   fst (handleSubmit (examSchema sample_platform)
      (CreateExam_onSubmit sample_platform (Inl (AxiosError ''Network Error'')) (Inr ()))
      (sample_exam\<lparr>raw_pdfFile := Some [sample_file]\<rparr>) False) =
     [HttpPost ''/upload'' (FormDataFile sample_file),
      ConsoleError (LogError (AxiosError ''Network Error'')),
      Alert ''Failed to create exam. Please check your connection.''] \<and>
   posts_to ''/exams'' (fst (handleSubmit (examSchema sample_platform)
      (CreateExam_onSubmit sample_platform (Inl (AxiosError ''Network Error'')) (Inr ()))
      (sample_exam\<lparr>raw_pdfFile := Some [sample_file]\<rparr>) False)) = []"
  by (simp add: handleSubmit_def sample_exam_with_file_parses CreateExam_onSubmit_def
      upload_step_def exam_catch_def sample_parsed_exam_def posts_to_simps)

section \<open>Route guard\<close>

text \<open>
  Claim C5. For each of the two protected screens, the dashboard and exam creation: if
  the auth store holds no token (the field is null, or the empty string, which the
  guard's truthiness test treats alike) the router redirects to \<open>/login\<close>; if a
  token is present, the screen's component is rendered. The router that declares the
  dashboard alone guards it in the same way.
\<close>

theorem route_guard:
  "path = ''/dashboard'' \<or> path = ''/create-exam'' \<Longrightarrow>
     (token s = None \<longrightarrow>
        App s path = Navigate ''/login'' \<and>
        App_dashboard_only s ''/dashboard'' = Navigate ''/login'') \<and>
     (token s = Some [] \<longrightarrow>
        App s path = Navigate ''/login'' \<and>
        App_dashboard_only s ''/dashboard'' = Navigate ''/login'') \<and>
     (\<forall>t. token s = Some t \<and> t \<noteq> [] \<longrightarrow>
        App s path = (if path = ''/dashboard'' then DashboardPage else CreateExamPage) \<and>
        App_dashboard_only s ''/dashboard'' = DashboardPage)"
  by (auto simp: App_def App_dashboard_only_def ProtectedRoute_def truthy_def)

text \<open>The theorem at a logged-out store and at a store after a teacher's login.\<close>

theorem route_guard_witness:
  "App logged_out ''/dashboard'' = Navigate ''/login'' \<and>
   App logged_out ''/create-exam'' = Navigate ''/login'' \<and>
   App_dashboard_only logged_out ''/dashboard'' = Navigate ''/login'' \<and>
   App (login ''tok'' sample_teacher logged_out) ''/dashboard'' = DashboardPage \<and>
   App (login ''tok'' sample_teacher logged_out) ''/create-exam'' = CreateExamPage \<and>
   App_dashboard_only (login ''tok'' sample_teacher logged_out) ''/dashboard'' = DashboardPage"
proof -
  have n: "token logged_out = None" by (simp add: logged_out_def)
  have t: "token (login ''tok'' sample_teacher logged_out) = Some ''tok'' \<and> ''tok'' \<noteq> []"
    by (simp add: login_def)
  from route_guard [of "''/dashboard''" logged_out] route_guard [of "''/create-exam''" logged_out]
    route_guard [of "''/dashboard''" "login ''tok'' sample_teacher logged_out"]
    route_guard [of "''/create-exam''" "login ''tok'' sample_teacher logged_out"] n t
  show ?thesis by simp
qed

section \<open>Questions of a validated submission\<close>

text \<open>
  Claim C6. Every question of a validated exam submission has a non-empty text, exactly
  four option strings none of which is empty, a correct-option index that is a number
  between 0 and 3 inclusive, and a point value of at least 1.
\<close>

theorem validated_question_shape:
  "examSchema P x = Some d \<Longrightarrow> q \<in> set (questions d) \<Longrightarrow>
     question_text q \<noteq> [] \<and> length (options q) = 4 \<and> [] \<notin> set (options q) \<and>
     0 \<le> correctIndex q \<and> correctIndex q \<le> 3 \<and> 1 \<le> marks q"
proof -
  assume d: "examSchema P x = Some d" and q: "q \<in> set (questions d)"
  from d have "list_all2 (\<lambda>raw r. questionSchema P raw = Some r) (raw_questions x) (questions d)"
    by (simp add: examSchema_Some)
  with q obtain raw where raw: "questionSchema P raw = Some q"
    by (auto simp: in_set_conv_nth list_all2_conv_all_nth)
  then have opts: "list_all2 (\<lambda>v opt. v = JStr opt \<and> 1 \<le> length opt) (raw_options raw) (options q)"
    by (simp add: questionSchema_Some)
  have "[] \<notin> set (options q)"
  proof
    assume "[] \<in> set (options q)"
    then obtain i where "i < length (options q)" "options q ! i = []"
      by (auto simp: in_set_conv_nth)
    with opts show False by (auto simp: list_all2_conv_all_nth)
  qed
  moreover from raw have "1 \<le> length (question_text q)" by (simp add: questionSchema_Some)
  then have "question_text q \<noteq> []" by auto
  ultimately show ?thesis using raw by (simp add: questionSchema_Some)
qed

text \<open>The theorem at the sample exam and its one question.\<close>

theorem validated_question_shape_witness:
  "examSchema sample_platform sample_exam = Some sample_parsed_exam \<and>
   sample_parsed_question \<in> set (questions sample_parsed_exam) \<and>
   question_text sample_parsed_question \<noteq> [] \<and>
   length (options sample_parsed_question) = 4 \<and>
   [] \<notin> set (options sample_parsed_question) \<and>
   0 \<le> correctIndex sample_parsed_question \<and> correctIndex sample_parsed_question \<le> 3 \<and>
   1 \<le> marks sample_parsed_question"
proof -
  have m: "sample_parsed_question \<in> set (questions sample_parsed_exam)"
    by (simp add: sample_parsed_exam_def)
  from validated_question_shape [OF sample_exam_parses m] sample_exam_parses m
  show ?thesis by simp
qed

section \<open>Login form validation\<close>

text \<open>
  Claim C7. The login form's client-side validation rejects an input whose email field is
  not a well-formed email address or whose password has fewer than 6 characters, and then
  the submit handler is not called, so no login request is issued and the store is left as
  it was. An input that meets both constraints passes validation, and the submit handler
  is called with the entered email and password.
\<close>

theorem loginSchema_validation:
  "((\<not> well_formed_email P (raw_email x) \<or> \<not> string_of_min_length 6 (raw_password x)) \<longrightarrow>
      loginSchema P x = None \<and>
      handleSubmit (loginSchema P) (Login_onSubmit res) x s = ([], s)) \<and>
   (well_formed_email P (raw_email x) \<and> string_of_min_length 6 (raw_password x) \<longrightarrow>
      (\<exists>d. loginSchema P x = Some d \<and> raw_email x = JStr (email d) \<and>
           raw_password x = JStr (password d) \<and>
           handleSubmit (loginSchema P) (Login_onSubmit res) x s = Login_onSubmit res d s))"
proof (intro conjI impI)
  assume bad: "\<not> well_formed_email P (raw_email x) \<or> \<not> string_of_min_length 6 (raw_password x)"
  then have "\<not> login_constraints P x" by (auto simp: login_constraints_def)
  then have "\<not> (\<exists>d. loginSchema P x = Some d)" using loginSchema_accepts_iff by blast
  then show none: "loginSchema P x = None" by simp
  then show "handleSubmit (loginSchema P) (Login_onSubmit res) x s = ([], s)"
    by (simp add: handleSubmit_def)
next
  assume "well_formed_email P (raw_email x) \<and> string_of_min_length 6 (raw_password x)"
  then have "login_constraints P x" by (simp add: login_constraints_def)
  then obtain d where d: "loginSchema P x = Some d" using loginSchema_accepts_iff by blast
  then have "raw_email x = JStr (email d)" "raw_password x = JStr (password d)"
    by (simp_all add: loginSchema_Some)
  moreover from d have "handleSubmit (loginSchema P) (Login_onSubmit res) x s = Login_onSubmit res d s"
    by (simp add: handleSubmit_def)
  ultimately show "\<exists>d. loginSchema P x = Some d \<and> raw_email x = JStr (email d) \<and>
           raw_password x = JStr (password d) \<and>
           handleSubmit (loginSchema P) (Login_onSubmit res) x s = Login_onSubmit res d s"
    using d by blast
qed

text \<open>
  The theorem at three inputs: a password of three characters, an email without an @,
  and an input that meets both constraints.
\<close>

theorem loginSchema_validation_witness:
  "loginSchema sample_platform \<lparr>raw_email = JStr ''nimal@school.lk'', raw_password = JStr ''abc''\<rparr> = None \<and>
   handleSubmit (loginSchema sample_platform) (Login_onSubmit (Inr \<lparr>access_token = ''tok'', user = sample_teacher\<rparr>))
     \<lparr>raw_email = JStr ''nimal@school.lk'', raw_password = JStr ''abc''\<rparr> logged_out = ([], logged_out) \<and>
   loginSchema sample_platform \<lparr>raw_email = JStr ''nimal-school.lk'', raw_password = JStr ''secret1''\<rparr> = None \<and>
   loginSchema sample_platform \<lparr>raw_email = JStr ''nimal@school.lk'', raw_password = JStr ''secret1''\<rparr> \<noteq> None"
proof -
  let ?short = "\<lparr>raw_email = JStr ''nimal@school.lk'', raw_password = JStr ''abc''\<rparr>"
  let ?noat = "\<lparr>raw_email = JStr ''nimal-school.lk'', raw_password = JStr ''secret1''\<rparr>"
  let ?good = "\<lparr>raw_email = JStr ''nimal@school.lk'', raw_password = JStr ''secret1''\<rparr>"
  have h1: "\<not> string_of_min_length 6 (raw_password ?short)"
    by (simp add: string_of_min_length_def)
  have h2: "\<not> well_formed_email sample_platform (raw_email ?noat)"
    by (simp add: well_formed_email_def sample_platform_def)
  have h3: "well_formed_email sample_platform (raw_email ?good) \<and> string_of_min_length 6 (raw_password ?good)"
    by (simp add: well_formed_email_def sample_platform_def string_of_min_length_def)
  show ?thesis
    using h1 h2 h3
      loginSchema_validation [of sample_platform ?short "Inr \<lparr>access_token = ''tok'', user = sample_teacher\<rparr>" logged_out]
      loginSchema_validation [of sample_platform ?noat "Inr \<lparr>access_token = ''tok'', user = sample_teacher\<rparr>" logged_out]
      loginSchema_validation [of sample_platform ?good "Inr \<lparr>access_token = ''tok'', user = sample_teacher\<rparr>" logged_out]
    by auto
qed

section \<open>Batch creation\<close>

text \<open>
  Claim C8, as amended. For every invocation of batch creation on the dashboard: if the
  prompt is cancelled or returns the empty name, no request is issued and the batch list
  is unchanged; otherwise exactly one POST to \<open>/batches\<close> with the entered name is
  issued, and, when that request succeeds, it is followed by a refresh of the batch list
  (a GET of \<open>/batches\<close>, whose result replaces the list when it arrives); when the
  POST fails, no refresh is issued and the batch list is unchanged.
\<close>

theorem createBatch_requests:
  "createBatch answer postRes getRes batches = (effs, batches', err) \<Longrightarrow>
     ((answer = None \<or> answer = Some []) \<longrightarrow> requests effs = [] \<and> batches' = batches) \<and>
     (\<forall>name. answer = Some name \<and> name \<noteq> [] \<longrightarrow>
        posts_to ''/batches'' effs = [BatchPayload name] \<and>
        (case postRes of
           Inr b \<Rightarrow>
             requests effs = [HttpPost ''/batches'' (BatchPayload name), HttpGet ''/batches''] \<and>
             batches' = (case getRes of Inr bs \<Rightarrow> bs | Inl e \<Rightarrow> batches)
         | Inl e \<Rightarrow>
             requests effs = [HttpPost ''/batches'' (BatchPayload name)] \<and>
             batches' = batches))"
  by (auto simp: createBatch_def fetchBatches_def requests_simps posts_to_simps
      split: option.splits sum.splits if_splits)

text \<open>The theorem at a cancelled prompt and at an entered name whose request succeeds.\<close>

theorem createBatch_requests_witness:
  "requests (fst (createBatch None (Inr sample_batch) (Inr [sample_batch]) [])) = [] \<and>
   fst (snd (createBatch None (Inr sample_batch) (Inr [sample_batch]) [])) = [] \<and>
   requests (fst (createBatch (Some ''2026 Revision'') (Inr sample_batch) (Inr [sample_batch]) [])) =
     [HttpPost ''/batches'' (BatchPayload ''2026 Revision''), HttpGet ''/batches''] \<and>
   fst (snd (createBatch (Some ''2026 Revision'') (Inr sample_batch) (Inr [sample_batch]) [])) =
     [sample_batch]"
proof -
  let ?post = "Inr sample_batch :: js_error + Batch"
  let ?get = "Inr [sample_batch] :: js_error + Batch list"
  let ?c = "createBatch None ?post ?get []"
  let ?n = "createBatch (Some ''2026 Revision'') ?post ?get []"
  have c: "?c = (fst ?c, fst (snd ?c), snd (snd ?c))" by simp
  have n: "?n = (fst ?n, fst (snd ?n), snd (snd ?n))" by simp
  from createBatch_requests [OF c]
  have "requests (fst ?c) = [] \<and> fst (snd ?c) = []" by blast
  moreover from createBatch_requests [OF n]
  have "requests (fst ?n) = [HttpPost ''/batches'' (BatchPayload ''2026 Revision''), HttpGet ''/batches'']
      \<and> fst (snd ?n) = [sample_batch]"
    by simp
  ultimately show ?thesis by simp
qed

text \<open>
  The claim as first stated has the refresh follow every POST. When the POST is rejected,
  the POST is the only request.
\<close>

theorem createBatch_post_failure_counterexample:
  "createBatch (Some ''2026 Revision'') (Inl (AxiosError ''Network Error'')) (Inr [sample_batch]) [] =
     ([Prompt ''Enter Batch Name (e.g., 2026 Revision):'',
       HttpPost ''/batches'' (BatchPayload ''2026 Revision'')], [],
      Some (AxiosError ''Network Error'')) \<and>
   requests (fst (createBatch (Some ''2026 Revision'') (Inl (AxiosError ''Network Error''))
      (Inr [sample_batch]) [])) = [HttpPost ''/batches'' (BatchPayload ''2026 Revision'')]"
  by (simp add: createBatch_def requests_simps)

section \<open>The question list is never empty\<close>

text \<open>
  Claim C9. The exam form's question list always holds at least one question: the form
  starts with exactly one default question; "Add Question" makes the list one longer; a
  row's remove button is rendered exactly when the row exists and the list holds more
  than one question, and clicking it makes the list one shorter (a click on a button that
  is not there changes nothing); so after any sequence of clicks and edits the list has
  at least one question.
\<close>

theorem question_rows_never_empty:
  "initial_fields = [defaultQuestion] \<and>
   length (ui_step rows ClickAdd) = Suc (length rows) \<and>
   (remove_rendered rows i \<longleftrightarrow> i < length rows \<and> 1 < length rows) \<and>
   (remove_rendered rows i \<longrightarrow> Suc (length (ui_step rows (ClickRemove i))) = length rows) \<and>
   (\<not> remove_rendered rows i \<longrightarrow> ui_step rows (ClickRemove i) = rows) \<and>
   1 \<le> length (fields_after acts)"
proof -
  have "fields_after acts \<noteq> []"
    unfolding fields_after_def by (rule foldl_ui_step_nonempty) (simp add: initial_fields_def)
  then have "1 \<le> length (fields_after acts)" by (cases "fields_after acts") simp_all
  moreover have "remove_rendered rows i \<longrightarrow> Suc (length (ui_step rows (ClickRemove i))) = length rows"
    by (auto simp: remove_rendered_def fields_remove_def)
  ultimately show ?thesis
    by (simp add: initial_fields_def fields_append_def remove_rendered_def)
qed

text \<open>
  The theorem at a list of two rows, where the remove button is rendered, at a list of one
  row, where it is not, and at a sequence of four clicks.
\<close>

theorem question_rows_never_empty_witness:
  "Suc (length (ui_step [defaultQuestion, defaultQuestion] (ClickRemove 0))) = 2 \<and>
   ui_step [defaultQuestion] (ClickRemove 0) = [defaultQuestion] \<and>
   1 \<le> length (fields_after [ClickRemove 0, ClickAdd, ClickRemove 1, ClickRemove 0])"
proof -
  let ?acts = "[ClickRemove 0, ClickAdd, ClickRemove 1, ClickRemove 0]"
  have two: "remove_rendered [defaultQuestion, defaultQuestion] 0"
    by (simp add: remove_rendered_def)
  have one: "\<not> remove_rendered [defaultQuestion] 0"
    by (simp add: remove_rendered_def)
  from question_rows_never_empty [of "[defaultQuestion, defaultQuestion]" 0 ?acts] two
  have "Suc (length (ui_step [defaultQuestion, defaultQuestion] (ClickRemove 0))) =
          length [defaultQuestion, defaultQuestion] \<and> 1 \<le> length (fields_after ?acts)"
    by blast
  moreover from question_rows_never_empty [of "[defaultQuestion]" 0 ?acts] one
  have "ui_step [defaultQuestion] (ClickRemove 0) = [defaultQuestion]"
    by blast
  ultimately show ?thesis by simp
qed

section \<open>The PDF attachment\<close>

text \<open>
  Claim C10. The attachment field of the exam form passes validation when it is absent
  and when the list of selected files is empty; when a file is present, it passes
  validation if and only if the size of the (first) file is at most 5,000,000 bytes. A
  form whose attachment fails this check is rejected as a whole.
\<close>

theorem pdfFile_validation:
  "pdfFileSchema None = Some None \<and>
   pdfFileSchema (Some []) = Some (Some []) \<and>
   (pdfFileSchema (Some (f # fs)) = Some (Some (f # fs)) \<longleftrightarrow> file_size f \<le> 5000000) \<and>
   (pdfFileSchema (Some (f # fs)) = None \<longleftrightarrow> 5000000 < file_size f) \<and>
   (pdfFileSchema (raw_pdfFile x) = None \<longrightarrow> examSchema P x = None)"
  by (auto simp: pdfFileSchema_def z_optional_def z_refine_def pdfFile_check_def examSchema_def)

text \<open>The theorem at a file of 6,000,000 bytes and at one of 120,000 bytes.\<close>

theorem pdfFile_validation_witness:
  "pdfFileSchema (Some [sample_file\<lparr>file_size := 6000000\<rparr>]) = None \<and>
   examSchema sample_platform
     (sample_exam\<lparr>raw_pdfFile := Some [sample_file\<lparr>file_size := 6000000\<rparr>]\<rparr>) = None \<and>
   pdfFileSchema (Some [sample_file]) = Some (Some [sample_file])"
proof -
  let ?big = "sample_file\<lparr>file_size := 6000000\<rparr>"
  let ?x = "sample_exam\<lparr>raw_pdfFile := Some [?big]\<rparr>"
  have big: "5000000 < file_size ?big" by simp
  have small: "file_size sample_file \<le> 5000000" by (simp add: sample_file_def)
  from pdfFile_validation [of ?big "[]" ?x sample_platform] big
  have "pdfFileSchema (Some [?big]) = None" by blast
  moreover from this pdfFile_validation [of ?big "[]" ?x sample_platform]
  have "examSchema sample_platform ?x = None" by simp
  moreover from pdfFile_validation [of sample_file "[]" ?x sample_platform] small
  have "pdfFileSchema (Some [sample_file]) = Some (Some [sample_file])" by blast
  ultimately show ?thesis by simp
qed

end
